theory Spec2Isabelle
  imports Complex_Main "HOL-Library.Sublist"
begin

section \<open>Data model of \<open>MeshUIComponent.js\<close>\<close>

text \<open>
  A JavaScript value as the component stores it in an attribute. Numbers are idealised as
  reals (no NaN, no rounding), \<open>JObj\<close> is a reference to an object that is not a function
  (a font description, a texture, a colour).
\<close>

datatype jsval = Undefined | Null | JBool bool | JNum real | JStr string | JObj nat

text \<open>JavaScript's truthiness: \<open>undefined\<close>, \<open>null\<close>, \<open>false\<close>, \<open>0\<close> and \<open>""\<close> are falsy.\<close>

fun truthy :: "jsval \<Rightarrow> bool" where
  "truthy Undefined = False"
| "truthy Null = False"
| "truthy (JBool b) = b"
| "truthy (JNum r) = (r \<noteq> 0)"
| "truthy (JStr s) = (s \<noteq> [])"
| "truthy (JObj a) = True"

text \<open>
  An options object \<open>{k1: v1, ...}\<close> in key order. \<open>options[k]\<close> is \<open>lookup\<close>; a key that
  is absent reads as \<open>undefined\<close>. \<open>Object.keys\<close> is \<open>map fst\<close>.
\<close>

type_synonym options = "(string \<times> jsval) list"

fun lookup :: "options \<Rightarrow> string \<Rightarrow> jsval" where
  "lookup [] k = Undefined"
| "lookup ((k', v) # kvs) k = (if k' = k then v else lookup kvs k)"

text \<open>
  A state bundle as \<open>setupState\<close> stores it: \<open>{attributes, onSet}\<close>. The callback is a
  closure of the application; it is kept by an identifier.
\<close>

record savedState =
  attributes :: "options option"
  onSet :: "nat option"

text \<open>
  A node of the host scene graph. \<open>parent\<close> and \<open>children\<close> are references into the store,
  \<open>isUI\<close> and the role tags are the duck-typed flags, \<open>attrs\<close> holds the attribute
  properties (\<open>this[propName]\<close>, \<open>Undefined\<close> when never assigned), \<open>matrixWorld\<close> the
  sixteen elements of the world matrix.
\<close>

record node =
  parent :: "nat option"
  children :: "nat list"
  isUI :: bool
  isText :: bool
  isBlock :: bool
  isInlineBlock :: bool
  isInline :: bool
  attrs :: "string \<Rightarrow> jsval"
  states :: "string \<rightharpoonup> savedState"
  currentState :: "string option"
  matrixWorld :: "real list"

text \<open>The store maps an object reference to the object; every reference is valid.\<close>

type_synonym store = "nat \<Rightarrow> node"

text \<open>\<open>this[prop] = v\<close> on the object at \<open>this\<close>.\<close>

definition assign :: "store \<Rightarrow> nat \<Rightarrow> string \<Rightarrow> jsval \<Rightarrow> store" where
  "assign h this prop v = h(this := (h this)\<lparr>attrs := (attrs (h this))(prop := v)\<rparr>)"

text \<open>
  The calls the module makes into its collaborators (\<open>UpdateManager\<close>, \<open>FontLibrary\<close>,
  \<open>console\<close>, an \<open>onSet\<close> callback), in the order they are made. What a collaborator does
  when called is not part of this module.
\<close>

datatype event =
    Register nat
  | RequestUpdate nat jsval jsval jsval
  | SetFontFamily nat jsval
  | SetFontTexture nat jsval
  | Warn string
  | OnSet nat

section \<open>Getters\<close>

text \<open>\<open>getUIParent\<close>: the parent when it exists and is tagged \<open>isUI\<close>, else \<open>null\<close>.\<close>

definition getUIParent :: "store \<Rightarrow> nat \<Rightarrow> nat option" where
  "getUIParent h this =
     (case parent (h this) of
        None \<Rightarrow> None
      | Some p \<Rightarrow> if isUI (h p) then Some p else None)"

text \<open>
  \<open>getHighestParent\<close> recurses along the parent references; on a cyclic chain the source
  never returns, which is the value \<open>None\<close> here.
\<close>

partial_function (option) getHighestParent :: "store \<Rightarrow> nat \<Rightarrow> nat option" where
  "getHighestParent h this =
     (if getUIParent h this = None then Some this
      else (case parent (h this) of
              None \<Rightarrow> None
            | Some p \<Rightarrow> getHighestParent h p))"

text \<open>
  \<open>_getProperty\<close>. \<open>DEFAULTS\<close> is the table of \<open>utils/Defaults.js\<close>, a parameter here.
\<close>

partial_function (option) getProperty ::
  "(string \<Rightarrow> jsval) \<Rightarrow> store \<Rightarrow> nat \<Rightarrow> string \<Rightarrow> jsval option" where
  "getProperty DEFAULTS h this propName =
     (if attrs (h this) propName = Undefined \<and> getUIParent h this \<noteq> None
      then (case parent (h this) of
              None \<Rightarrow> None
            | Some p \<Rightarrow> getProperty DEFAULTS h p propName)
      else if truthy (attrs (h this) propName) then Some (attrs (h this) propName)
      else Some (DEFAULTS propName))"

definition getFontSize :: "(string \<Rightarrow> jsval) \<Rightarrow> store \<Rightarrow> nat \<Rightarrow> jsval option" where
  "getFontSize DEFAULTS h this = getProperty DEFAULTS h this ''fontSize''"

definition getFontTexture :: "(string \<Rightarrow> jsval) \<Rightarrow> store \<Rightarrow> nat \<Rightarrow> jsval option" where
  "getFontTexture DEFAULTS h this = getProperty DEFAULTS h this ''fontTexture''"

definition getFontFamily :: "(string \<Rightarrow> jsval) \<Rightarrow> store \<Rightarrow> nat \<Rightarrow> jsval option" where
  "getFontFamily DEFAULTS h this = getProperty DEFAULTS h this ''fontFamily''"

definition getBreakOn :: "(string \<Rightarrow> jsval) \<Rightarrow> store \<Rightarrow> nat \<Rightarrow> jsval option" where
  "getBreakOn DEFAULTS h this = getProperty DEFAULTS h this ''breakOn''"

definition getTextType :: "(string \<Rightarrow> jsval) \<Rightarrow> store \<Rightarrow> nat \<Rightarrow> jsval option" where
  "getTextType DEFAULTS h this = getProperty DEFAULTS h this ''textType''"

definition getFontColor :: "(string \<Rightarrow> jsval) \<Rightarrow> store \<Rightarrow> nat \<Rightarrow> jsval option" where
  "getFontColor DEFAULTS h this = getProperty DEFAULTS h this ''fontColor''"

definition getFontOpacity :: "(string \<Rightarrow> jsval) \<Rightarrow> store \<Rightarrow> nat \<Rightarrow> jsval option" where
  "getFontOpacity DEFAULTS h this = getProperty DEFAULTS h this ''fontOpacity''"

definition getBorderRadius :: "(string \<Rightarrow> jsval) \<Rightarrow> store \<Rightarrow> nat \<Rightarrow> jsval option" where
  "getBorderRadius DEFAULTS h this = getProperty DEFAULTS h this ''borderRadius''"

subsection \<open>Getters with no parents lookup\<close>

definition getBackgroundOpacity :: "(string \<Rightarrow> jsval) \<Rightarrow> store \<Rightarrow> nat \<Rightarrow> jsval" where
  "getBackgroundOpacity DEFAULTS h this =
     (if \<not> truthy (attrs (h this) ''backgroundOpacity'')
         \<and> attrs (h this) ''backgroundOpacity'' \<noteq> JNum 0
      then DEFAULTS ''backgroundOpacity'' else attrs (h this) ''backgroundOpacity'')"

definition getBackgroundColor :: "(string \<Rightarrow> jsval) \<Rightarrow> store \<Rightarrow> nat \<Rightarrow> jsval" where
  "getBackgroundColor DEFAULTS h this =
     (if truthy (attrs (h this) ''backgroundColor'') then attrs (h this) ''backgroundColor''
      else DEFAULTS ''backgroundColor'')"

definition getBackgroundTexture :: "(string \<Rightarrow> jsval) \<Rightarrow> store \<Rightarrow> nat \<Rightarrow> jsval" where
  "getBackgroundTexture DEFAULTS h this =
     (if truthy (attrs (h this) ''backgroundTexture'') then attrs (h this) ''backgroundTexture''
      else DEFAULTS ''backgroundTexture'')"

definition getAlignContent :: "(string \<Rightarrow> jsval) \<Rightarrow> store \<Rightarrow> nat \<Rightarrow> jsval" where
  "getAlignContent DEFAULTS h this =
     (if truthy (attrs (h this) ''alignContent'') then attrs (h this) ''alignContent''
      else DEFAULTS ''alignContent'')"

definition getContentDirection :: "(string \<Rightarrow> jsval) \<Rightarrow> store \<Rightarrow> nat \<Rightarrow> jsval" where
  "getContentDirection DEFAULTS h this =
     (if truthy (attrs (h this) ''contentDirection'') then attrs (h this) ''contentDirection''
      else DEFAULTS ''contentDirection'')"

definition getJustifyContent :: "(string \<Rightarrow> jsval) \<Rightarrow> store \<Rightarrow> nat \<Rightarrow> jsval" where
  "getJustifyContent DEFAULTS h this =
     (if truthy (attrs (h this) ''justifyContent'') then attrs (h this) ''justifyContent''
      else DEFAULTS ''justifyContent'')"

definition getInterLine :: "(string \<Rightarrow> jsval) \<Rightarrow> store \<Rightarrow> nat \<Rightarrow> jsval" where
  "getInterLine DEFAULTS h this =
     (if attrs (h this) ''interLine'' = Undefined then DEFAULTS ''interLine''
      else attrs (h this) ''interLine'')"

definition getOffset :: "(string \<Rightarrow> jsval) \<Rightarrow> store \<Rightarrow> nat \<Rightarrow> jsval" where
  "getOffset DEFAULTS h this =
     (if attrs (h this) ''offset'' = Undefined then DEFAULTS ''offset''
      else attrs (h this) ''offset'')"

definition getBackgroundSize :: "(string \<Rightarrow> jsval) \<Rightarrow> store \<Rightarrow> nat \<Rightarrow> jsval" where
  "getBackgroundSize DEFAULTS h this =
     (if attrs (h this) ''backgroundSize'' = Undefined then DEFAULTS ''backgroundSize''
      else attrs (h this) ''backgroundSize'')"

definition getHiddenOverflow :: "(string \<Rightarrow> jsval) \<Rightarrow> store \<Rightarrow> nat \<Rightarrow> jsval" where
  "getHiddenOverflow DEFAULTS h this =
     (if attrs (h this) ''hiddenOverflow'' = Undefined then DEFAULTS ''hiddenOverflow''
      else attrs (h this) ''hiddenOverflow'')"

text \<open>The ten getters of this group, each with the property it reads.\<close>

definition nonCascading ::
  "(string \<times> ((string \<Rightarrow> jsval) \<Rightarrow> store \<Rightarrow> nat \<Rightarrow> jsval)) list" where
  "nonCascading =
     [(''backgroundColor'', getBackgroundColor),
      (''backgroundOpacity'', getBackgroundOpacity),
      (''backgroundTexture'', getBackgroundTexture),
      (''backgroundSize'', getBackgroundSize),
      (''alignContent'', getAlignContent),
      (''contentDirection'', getContentDirection),
      (''justifyContent'', getJustifyContent),
      (''interLine'', getInterLine),
      (''offset'', getOffset),
      (''hiddenOverflow'', getHiddenOverflow)]"

text \<open>
  The chain of UI ancestors of a node, nearest first: the nodes \<open>getUIParent\<close> reaches
  until it answers \<open>null\<close>. A node has such a chain exactly when its parent references
  do not run in a cycle.
\<close>

inductive ui_chain :: "store \<Rightarrow> nat \<Rightarrow> nat list \<Rightarrow> bool" where
  top: "getUIParent h n = None \<Longrightarrow> ui_chain h n []"
| up: "getUIParent h n = Some p \<Longrightarrow> ui_chain h p ps \<Longrightarrow> ui_chain h n (p # ps)"

section \<open>Clipping planes\<close>







section \<open>Update\<close>

text \<open>\<open>update\<close> hands its three flags to \<open>UpdateManager.requestUpdate\<close>.\<close>

definition update :: "nat \<Rightarrow> jsval \<Rightarrow> jsval \<Rightarrow> jsval \<Rightarrow> event list" where
  "update this updateParsing updateLayout updateInner =
     [RequestUpdate this updateParsing updateLayout updateInner]"





section \<open>\<open>set\<close>\<close>

text \<open>The three local variables of \<open>set\<close>, each \<open>undefined\<close> until assigned.\<close>

record flags =
  parsingNeedsUpdate :: jsval
  layoutNeedsUpdate :: jsval
  innerNeedsUpdate :: jsval

definition noFlags :: flags where
  "noFlags = \<lparr>parsingNeedsUpdate = Undefined, layoutNeedsUpdate = Undefined,
               innerNeedsUpdate = Undefined\<rparr>"

text \<open>
  \<open>JSON.stringify(options) === JSON.stringify({})\<close>: a key whose value is \<open>undefined\<close> is
  left out of the JSON text, every other value of \<open>jsval\<close> is written.
\<close>

definition stringifiesEmpty :: "options \<Rightarrow> bool" where
  "stringifiesEmpty opts = list_all (\<lambda>k. lookup opts k = Undefined) (map fst opts)"

text \<open>One round of the loop over \<open>Object.keys(options)\<close>: the \<open>switch\<close> on \<open>prop\<close>.\<close>

definition setProp :: "options \<Rightarrow> nat \<Rightarrow> string \<Rightarrow> store \<times> flags \<Rightarrow> store \<times> flags" where
  "setProp opts this prop = (\<lambda>(h, f).
     if prop = ''content'' then
       (assign h this prop (lookup opts prop),
        f\<lparr>parsingNeedsUpdate := (if isText (h this) then JBool True else parsingNeedsUpdate f),
          layoutNeedsUpdate := JBool True\<rparr>)
     else if prop \<in> set [''width'', ''height'', ''padding''] then
       (assign h this prop (lookup opts prop),
        f\<lparr>parsingNeedsUpdate :=
            (if isInlineBlock (h this) then JBool True else parsingNeedsUpdate f),
          layoutNeedsUpdate := JBool True\<rparr>)
     else if prop \<in> set [''fontSize'', ''interLine'', ''margin'', ''contentDirection'',
                          ''justifyContent'', ''alignContent'', ''textType'', ''borderRadius'',
                          ''backgroundSize'', ''src''] then
       (assign h this prop (lookup opts prop), f\<lparr>layoutNeedsUpdate := JBool True\<rparr>)
     else if prop \<in> set [''fontColor'', ''fontOpacity'', ''offset'', ''backgroundColor'',
                          ''backgroundOpacity'', ''backgroundTexture''] then
       (assign h this prop (lookup opts prop), f\<lparr>innerNeedsUpdate := JBool True\<rparr>)
     else if prop = ''hiddenOverflow'' then
       (assign h this prop (lookup opts prop), f)
     else (h, f))"

definition setProps :: "options \<Rightarrow> nat \<Rightarrow> store \<Rightarrow> store \<times> flags" where
  "setProps opts this h = fold (setProp opts this) (map fst opts) (h, noFlags)"

text \<open>
  The two special cases after the loop: a truthy \<open>options.fontFamily\<close> or
  \<open>options.fontTexture\<close> goes to the font library and sets \<open>layoutNeedsUpdate\<close> to false.
\<close>

definition fontCases :: "options \<Rightarrow> nat \<Rightarrow> flags \<Rightarrow> flags \<times> event list" where
  "fontCases opts this f =
     (let (f1, ev1) =
            (if truthy (lookup opts ''fontFamily'')
             then (f\<lparr>layoutNeedsUpdate := JBool False\<rparr>,
                   [SetFontFamily this (lookup opts ''fontFamily'')])
             else (f, []));
          (f2, ev2) =
            (if truthy (lookup opts ''fontTexture'')
             then (f1\<lparr>layoutNeedsUpdate := JBool False\<rparr>,
                   [SetFontTexture this (lookup opts ''fontTexture'')])
             else (f1, []))
      in (f2, ev1 @ ev2))"

text \<open>
  \<open>set\<close>. The argument is \<open>None\<close> when no options object is passed. The result is the
  store after the call and the calls made, or \<open>None\<close> when \<open>getHighestParent\<close> does not
  return.
\<close>

definition set_ui :: "store \<Rightarrow> nat \<Rightarrow> options option \<Rightarrow> (store \<times> event list) option" where
  "set_ui h this options =
     (case options of
        None \<Rightarrow> Some (h, [Register this])
      | Some opts \<Rightarrow>
          if stringifiesEmpty opts then Some (h, [Register this])
          else
            (let (h1, f) = setProps opts this h;
                 (f2, fontEvents) = fontCases opts this f;
                 events = [Register this] @ fontEvents
                   @ update this (parsingNeedsUpdate f2) (layoutNeedsUpdate f2)
                       (innerNeedsUpdate f2)
             in if truthy (layoutNeedsUpdate f2)
                then (case getHighestParent h1 this of
                        None \<Rightarrow> None
                      | Some highest \<Rightarrow>
                          Some (h1, events
                            @ update highest (JBool False) (JBool True) (JBool False)))
                else Some (h1, events)))"

section \<open>States management\<close>




section \<open>Notions used to state the properties\<close>

text \<open>The eight getters that go through \<open>_getProperty\<close>, each with the property it reads.\<close>

definition cascading ::
  "(string \<times> ((string \<Rightarrow> jsval) \<Rightarrow> store \<Rightarrow> nat \<Rightarrow> jsval option)) list" where
  "cascading =
     [(''fontSize'', getFontSize),
      (''fontTexture'', getFontTexture),
      (''fontFamily'', getFontFamily),
      (''breakOn'', getBreakOn),
      (''textType'', getTextType),
      (''fontColor'', getFontColor),
      (''fontOpacity'', getFontOpacity),
      (''borderRadius'', getBorderRadius)]"

text \<open>The keys the \<open>switch\<close> of \<open>set\<close> has a case for.\<close>

definition classified :: "string list" where
  "classified = [''content'', ''width'', ''height'', ''padding'', ''fontSize'', ''interLine'',
     ''margin'', ''contentDirection'', ''justifyContent'', ''alignContent'', ''textType'',
     ''borderRadius'', ''backgroundSize'', ''src'', ''fontColor'', ''fontOpacity'', ''offset'',
     ''backgroundColor'', ''backgroundOpacity'', ''backgroundTexture'', ''hiddenOverflow'']"

text \<open>Two stores that differ at most in the attribute properties of their nodes.\<close>

definition onlyAttrs :: "store \<Rightarrow> store \<Rightarrow> bool" where
  "onlyAttrs h h' = (\<forall>n. h' n = (h n)\<lparr>attrs := attrs (h' n)\<rparr>)"





section \<open>A small scene\<close>

text \<open>
  Object 4 is the scene (not a UI node), 0 the root block with hidden overflow, 1 a block
  in it, 2 a text in 1 and 3 a mesh in 1 that is not a UI node.
\<close>

definition emptyNode :: node where
  "emptyNode = \<lparr>parent = None, children = [], isUI = False, isText = False, isBlock = False,
     isInlineBlock = False, isInline = False, attrs = (\<lambda>k. Undefined), states = Map.empty,
     currentState = None, matrixWorld = []\<rparr>"

definition exampleStore :: store where
  "exampleStore = (\<lambda>a. emptyNode)
     (4 := emptyNode\<lparr>children := [0]\<rparr>,
      0 := emptyNode\<lparr>parent := Some 4, children := [1], isUI := True, isBlock := True,
             attrs := (\<lambda>k. Undefined)(''hiddenOverflow'' := JBool True, ''padding'' := JNum 1)\<rparr>,
      1 := emptyNode\<lparr>parent := Some 0, children := [2, 3], isUI := True, isBlock := True\<rparr>,
      2 := emptyNode\<lparr>parent := Some 1, isUI := True, isText := True\<rparr>,
      3 := emptyNode\<lparr>parent := Some 1\<rparr>)"

definition exampleDefaults :: "string \<Rightarrow> jsval" where
  "exampleDefaults = (\<lambda>k. Undefined)
     (''fontOpacity'' := JNum 1, ''fontSize'' := JNum (1 / 20),
      ''backgroundColor'' := JStr ''#000'', ''hiddenOverflow'' := JBool False)"



section \<open>Auxiliary facts\<close>

lemma getUIParent_SomeD: "getUIParent h n = Some p \<Longrightarrow> parent (h n) = Some p \<and> isUI (h p)"
  by (auto simp: getUIParent_def split: option.splits if_splits)

lemma ui_chain_getHighestParent:
  "ui_chain h n ns \<Longrightarrow> getHighestParent h n = Some (last (n # ns))"
proof (induction rule: ui_chain.induct)
  case (top h n)
  then show ?case by (subst getHighestParent.simps) simp
next
  case (up h n p ps)
  from up.hyps(1) have "parent (h n) = Some p" by (simp add: getUIParent_SomeD)
  with up show ?case by (subst getHighestParent.simps) simp
qed

lemma ui_chain_getProperty_default:
  "ui_chain h n ns \<Longrightarrow> \<forall>a \<in> set (n # ns). attrs (h a) P = Undefined \<Longrightarrow>
     getProperty D h n P = Some (D P)"
proof (induction rule: ui_chain.induct)
  case (top h n)
  then show ?case by (subst getProperty.simps) simp
next
  case (up h n p ps)
  from up.hyps(1) have "parent (h n) = Some p" by (simp add: getUIParent_SomeD)
  with up show ?case by (subst getProperty.simps) simp
qed

text \<open>An own value that is truthy is what \<open>_getProperty\<close> returns, on the node and below it.\<close>

lemma getProperty_own_truthy:
  "truthy (attrs (h n) P) \<Longrightarrow> getProperty D h n P = Some (attrs (h n) P)"
  by (subst getProperty.simps) auto

lemma getProperty_inherited:
  "attrs (h c) P = Undefined \<Longrightarrow> getUIParent h c = Some n \<Longrightarrow>
     getProperty D h c P = getProperty D h n P"
  by (subst getProperty.simps) (simp add: getUIParent_SomeD)

lemma cascading_getProperty: "(P, g) \<in> set cascading \<Longrightarrow> g D h n = getProperty D h n P"
  by (auto simp: cascading_def getFontSize_def getFontTexture_def getFontFamily_def
        getBreakOn_def getTextType_def getFontColor_def getFontOpacity_def getBorderRadius_def)

lemma ui_chain_exampleStore: "ui_chain exampleStore 2 [1, 0]"
  by (auto intro!: ui_chain.intros simp: exampleStore_def emptyNode_def getUIParent_def)

lemma onlyAttrs_refl: "onlyAttrs h h"
  by (simp add: onlyAttrs_def)

lemma onlyAttrs_trans: "onlyAttrs h h' \<Longrightarrow> onlyAttrs h' h'' \<Longrightarrow> onlyAttrs h h''"
  unfolding onlyAttrs_def
proof
  fix n
  assume a: "\<forall>n. h' n = (h n)\<lparr>attrs := attrs (h' n)\<rparr>"
    and b: "\<forall>n. h'' n = (h' n)\<lparr>attrs := attrs (h'' n)\<rparr>"
  have "h'' n = (h' n)\<lparr>attrs := attrs (h'' n)\<rparr>" using b by blast
  also have "h' n = (h n)\<lparr>attrs := attrs (h' n)\<rparr>" using a by blast
  finally show "h'' n = (h n)\<lparr>attrs := attrs (h'' n)\<rparr>" by simp
qed

lemma onlyAttrs_assign: "onlyAttrs h (assign h this k v)"
  by (simp add: onlyAttrs_def assign_def)

lemma onlyAttrs_fields:
  assumes "onlyAttrs h h'"
  shows "parent (h' n) = parent (h n)" "children (h' n) = children (h n)"
    "isUI (h' n) = isUI (h n)" "isText (h' n) = isText (h n)" "isBlock (h' n) = isBlock (h n)"
    "isInlineBlock (h' n) = isInlineBlock (h n)" "states (h' n) = states (h n)"
    "currentState (h' n) = currentState (h n)" "matrixWorld (h' n) = matrixWorld (h n)"
proof -
  have e: "h' n = (h n)\<lparr>attrs := attrs (h' n)\<rparr>" using assms by (simp add: onlyAttrs_def)
  show "parent (h' n) = parent (h n)" by (subst e) simp
  show "children (h' n) = children (h n)" by (subst e) simp
  show "isUI (h' n) = isUI (h n)" by (subst e) simp
  show "isText (h' n) = isText (h n)" by (subst e) simp
  show "isBlock (h' n) = isBlock (h n)" by (subst e) simp
  show "isInlineBlock (h' n) = isInlineBlock (h n)" by (subst e) simp
  show "states (h' n) = states (h n)" by (subst e) simp
  show "currentState (h' n) = currentState (h n)" by (subst e) simp
  show "matrixWorld (h' n) = matrixWorld (h n)" by (subst e) simp
qed

lemma onlyAttrs_getUIParent: "onlyAttrs h h' \<Longrightarrow> getUIParent h' n = getUIParent h n"
  by (simp add: getUIParent_def onlyAttrs_fields cong: option.case_cong)

lemma onlyAttrs_ui_chain: "ui_chain h n ns \<Longrightarrow> onlyAttrs h h' \<Longrightarrow> ui_chain h' n ns"
  by (induction rule: ui_chain.induct) (auto intro: ui_chain.intros simp: onlyAttrs_getUIParent)

subsection \<open>The loop of \<open>set\<close>\<close>

lemma setProp_store:
  "fst (setProp opts this k (h, f)) =
     (if k \<in> set classified then assign h this k (lookup opts k) else h)"
  unfolding setProp_def classified_def by (simp only: split_conv) simp

lemma setProp_onlyAttrs: "onlyAttrs h (fst (setProp opts this k (h, f)))"
  by (simp add: setProp_store onlyAttrs_assign onlyAttrs_refl)



lemma fold_setProp_onlyAttrs: "onlyAttrs h (fst (fold (setProp opts this) ks (h, f)))"
proof (induction ks arbitrary: h f)
  case Nil
  show ?case by (simp add: onlyAttrs_refl)
next
  case (Cons k ks)
  obtain h1 f1 where s: "setProp opts this k (h, f) = (h1, f1)"
    by (cases "setProp opts this k (h, f)")
  have "onlyAttrs h h1" using setProp_onlyAttrs [of h opts this k f] s by simp
  moreover have "onlyAttrs h1 (fst (fold (setProp opts this) ks (h1, f1)))" by (rule Cons.IH)
  ultimately show ?case using s by (simp add: onlyAttrs_trans)
qed


lemma setProps_onlyAttrs: "onlyAttrs h (fst (setProps opts this h))"
  by (simp add: setProps_def fold_setProp_onlyAttrs)





lemma set_ui_unfold:
  "\<not> stringifiesEmpty opts \<Longrightarrow>
   set_ui h this (Some opts) =
     (let h1 = fst (setProps opts this h);
          f2 = fst (fontCases opts this (snd (setProps opts this h)));
          events = [Register this] @ snd (fontCases opts this (snd (setProps opts this h)))
            @ [RequestUpdate this (parsingNeedsUpdate f2) (layoutNeedsUpdate f2)
                 (innerNeedsUpdate f2)]
      in if truthy (layoutNeedsUpdate f2)
         then (case getHighestParent h1 this of
                 None \<Rightarrow> None
               | Some highest \<Rightarrow>
                   Some (h1, events
                     @ [RequestUpdate highest (JBool False) (JBool True) (JBool False)]))
         else Some (h1, events))"
  unfolding set_ui_def update_def by (simp add: Let_def split_beta)

lemma fontCases_none:
  "\<not> truthy (lookup opts ''fontFamily'') \<Longrightarrow> \<not> truthy (lookup opts ''fontTexture'') \<Longrightarrow>
     fontCases opts this f = (f, [])"
  by (simp add: fontCases_def)


subsection \<open>Traversal and the font callbacks\<close>








subsection \<open>Clipping planes\<close>




subsection \<open>States\<close>






section \<open>The properties\<close>

text \<open>
  C1 (fails on the code). The claim: after \<open>node.P = v\<close> with \<open>v\<close> defined, also \<open>0\<close> or the
  empty string, resolving \<open>P\<close> on the node and on a child without an own value gives \<open>v\<close>.
  \<open>_getProperty\<close> tests the own value with \<open>=== undefined\<close> before it asks the parent and by
  truthiness before it returns it: an own \<open>fontOpacity\<close> of \<open>0\<close> on block 1 is neither
  returned nor looked up further, and both block 1 and its child text 2 get the default
  \<open>1\<close>. For a truthy own value the claim holds (\<open>getProperty_own_truthy\<close>,
  \<open>getProperty_inherited\<close>).
\<close>

theorem getProperty_falsy_own_value:
  "getProperty exampleDefaults (assign exampleStore 1 ''fontOpacity'' (JNum 0)) 1 ''fontOpacity''
     = Some (JNum 1)
   \<and> getFontOpacity exampleDefaults (assign exampleStore 1 ''fontOpacity'' (JNum 0)) 2
     = Some (JNum 1)
   \<and> attrs (assign exampleStore 1 ''fontOpacity'' (JNum 0) 1) ''fontOpacity'' = JNum 0
   \<and> attrs (assign exampleStore 1 ''fontOpacity'' (JNum 0) 2) ''fontOpacity'' = Undefined
   \<and> getUIParent (assign exampleStore 1 ''fontOpacity'' (JNum 0)) 2 = Some 1"
  by (simp add: getFontOpacity_def getProperty.simps assign_def exampleStore_def
        exampleDefaults_def emptyNode_def getUIParent_def)

text \<open>
  C2. For each of the ten getters with no parents lookup and a node \<open>c\<close> that has no own
  value for the property, the getter returns the default, whatever the rest of the store
  holds; assigning the property on another node \<open>p\<close>, a parent for one, does not change
  that.
\<close>

theorem nonCascading_default:
  assumes "(P, g) \<in> set nonCascading" and "attrs (h c) P = Undefined" and "p \<noteq> c"
  shows "g D h c = D P \<and> g D (assign h p P v) c = D P"
proof -
  have "attrs (assign h p P v c) P = Undefined" using assms(2,3) by (simp add: assign_def)
  with assms(1,2) show ?thesis
    by (auto simp: nonCascading_def getBackgroundColor_def getBackgroundOpacity_def
          getBackgroundTexture_def getBackgroundSize_def getAlignContent_def
          getContentDirection_def getJustifyContent_def getInterLine_def getOffset_def
          getHiddenOverflow_def)
qed

theorem nonCascading_default_witness:
  "(''backgroundColor'', getBackgroundColor) \<in> set nonCascading
   \<and> attrs (exampleStore 1) ''backgroundColor'' = Undefined
   \<and> getBackgroundColor exampleDefaults exampleStore 1 = JStr ''#000''
   \<and> getBackgroundColor exampleDefaults
        (assign exampleStore 0 ''backgroundColor'' (JStr ''#f00'')) 1 = JStr ''#000''"
proof -
  have a: "(''backgroundColor'', getBackgroundColor) \<in> set nonCascading"
    by (simp add: nonCascading_def)
  have b: "attrs (exampleStore 1) ''backgroundColor'' = Undefined"
    by (simp add: exampleStore_def emptyNode_def)
  show ?thesis
    using a b nonCascading_default [where P = "''backgroundColor''" and g = getBackgroundColor
        and h = exampleStore and c = 1 and p = 0 and D = exampleDefaults
        and v = "JStr ''#f00''"]
    by (simp add: exampleDefaults_def)
qed

text \<open>
  C3. For each cascading property \<open>P\<close> and a node \<open>n\<close> whose own value and whose UI
  ancestors' values for \<open>P\<close> are all unset, \<open>_getProperty\<close> (and the getter of \<open>P\<close>) returns
  and gives the default of \<open>P\<close>.
\<close>

theorem cascading_default:
  assumes "(P, g) \<in> set cascading" and "ui_chain h n ancestors"
    and "\<forall>a \<in> set (n # ancestors). attrs (h a) P = Undefined"
  shows "g D h n = Some (D P) \<and> getProperty D h n P = Some (D P)"
  using assms by (simp add: cascading_getProperty ui_chain_getProperty_default)

theorem cascading_default_witness:
  "(''fontSize'', getFontSize) \<in> set cascading \<and> ui_chain exampleStore 2 [1, 0]
   \<and> attrs (exampleStore 2) ''fontSize'' = Undefined
   \<and> attrs (exampleStore 1) ''fontSize'' = Undefined
   \<and> attrs (exampleStore 0) ''fontSize'' = Undefined
   \<and> getFontSize exampleDefaults exampleStore 2 = Some (JNum (1 / 20))"
proof -
  have a: "(''fontSize'', getFontSize) \<in> set cascading" by (simp add: cascading_def)
  have b: "\<forall>a \<in> set (2 # [1, 0]). attrs (exampleStore a) ''fontSize'' = Undefined"
    by (simp add: exampleStore_def emptyNode_def)
  show ?thesis
    using a b cascading_default [OF a ui_chain_exampleStore b, of exampleDefaults]
      ui_chain_exampleStore
    by (simp add: exampleDefaults_def)
qed




text \<open>
  C9. A call of \<open>set\<close> that gets past the empty-options check and has no truthy
  \<open>fontFamily\<close> or \<open>fontTexture\<close> registers the node, requests an update on it with the three
  flags the loop accumulated and, exactly when the layout flag is true, then requests
  (false, true, false) on the highest UI ancestor; with the layout flag not true nothing
  follows the node's own request.
\<close>

theorem set_layout_requests_highest_parent:
  assumes "\<not> stringifiesEmpty opts"
    and "\<not> truthy (lookup opts ''fontFamily'')" and "\<not> truthy (lookup opts ''fontTexture'')"
    and "ui_chain h this ancestors"
  shows "set_ui h this (Some opts) =
     Some (fst (setProps opts this h),
           [Register this,
            RequestUpdate this (parsingNeedsUpdate (snd (setProps opts this h)))
              (layoutNeedsUpdate (snd (setProps opts this h)))
              (innerNeedsUpdate (snd (setProps opts this h)))]
           @ (if truthy (layoutNeedsUpdate (snd (setProps opts this h)))
              then [RequestUpdate (last (this # ancestors))
                      (JBool False) (JBool True) (JBool False)]
              else []))"
proof -
  have "ui_chain (fst (setProps opts this h)) this ancestors"
    using assms(4) setProps_onlyAttrs by (rule onlyAttrs_ui_chain)
  then have "getHighestParent (fst (setProps opts this h)) this = Some (last (this # ancestors))"
    by (rule ui_chain_getHighestParent)
  then show ?thesis
    using assms(1-3) by (simp add: set_ui_unfold fontCases_none Let_def)
qed

theorem set_layout_requests_highest_parent_witness:
  "ui_chain exampleStore 2 [1, 0]
   \<and> set_ui exampleStore 2 (Some [(''fontSize'', JNum 12)]) =
       Some (assign exampleStore 2 ''fontSize'' (JNum 12),
             [Register 2, RequestUpdate 2 Undefined (JBool True) Undefined,
              RequestUpdate 0 (JBool False) (JBool True) (JBool False)])
   \<and> set_ui exampleStore 2 (Some [(''fontColor'', JStr ''#fff'')]) =
       Some (assign exampleStore 2 ''fontColor'' (JStr ''#fff''),
             [Register 2, RequestUpdate 2 Undefined Undefined (JBool True)])"
  using set_layout_requests_highest_parent
          [of "[(''fontSize'', JNum 12)]" exampleStore 2 "[1, 0]"]
        set_layout_requests_highest_parent
          [of "[(''fontColor'', JStr ''#fff'')]" exampleStore 2 "[1, 0]"]
        ui_chain_exampleStore
  by (simp add: stringifiesEmpty_def setProps_def setProp_def noFlags_def)

text \<open>
  C10. \<open>set\<close> with no options object, or with the empty one, registers the node and does
  nothing else: the store is unchanged and no update is requested.
\<close>

theorem set_without_options:
  "set_ui h this None = Some (h, [Register this])
   \<and> set_ui h this (Some []) = Some (h, [Register this])"
  by (simp add: set_ui_def stringifiesEmpty_def)









end
